theory Spec2Isabelle
  imports Complex_Main
begin

section \<open>Risk engine of the brokerage alert system (scripts/risk\_engine.py)\<close>

text \<open>
  The embedding follows \<^verbatim>\<open>RiskEngine\<close> method by method. Python floats are
  modelled as \<^typ>\<open>real\<close> (rounding is not modelled), transaction ids as
  \<^typ>\<open>int\<close>, and \<^verbatim>\<open>datetime\<close> values as \<^typ>\<open>int\<close> microseconds.
  An exception is a value of type \<open>error\<close>; a method whose body can raise returns
  a sum, or a pair of the state reached and the exception that escaped, because the
  fields of \<^verbatim>\<open>self\<close> mutated before a raise stay mutated.
\<close>

subsection \<open>Data\<close>

datatype error =
    ZeroDivisionError   \<comment> \<open>float division by \<^verbatim>\<open>0.0\<close>\<close>
  | TypeError           \<comment> \<open>\<^verbatim>\<open>float(x)\<close> on a value that is not a number\<close>
  | DatabaseError       \<comment> \<open>any exception raised by the cursor or the commit\<close>

datatype risk_level = LOW | MEDIUM | HIGH | CRITICAL

datatype alert_type =
    HIGH_CLIENT_EXPOSURE | HIGH_SYMBOL_EXPOSURE | HIGH_TRANSACTION_VELOCITY | ANOMALY_DETECTED

text \<open>
  The \<^verbatim>\<open>message\<close> of an alert is an f-string; it is kept as its template together with
  the interpolated values, not as formatted text.
\<close>

datatype message =
    Client_exposure_msg string real real
  | Symbol_exposure_msg string real real
  | Velocity_msg string string nat int int
  | Anomaly_msg real real real real

record alert =
  alert_type :: alert_type
  severity :: risk_level
  entity_type :: string
  entity_id :: string
  message :: message
  threshold_value :: real
  current_value :: real

text \<open>The four thresholds read from the process environment when the module is loaded.\<close>

record config =
  CLIENT_EXPOSURE_THRESHOLD :: real
  SYMBOL_EXPOSURE_THRESHOLD :: real
  TRANSACTION_VELOCITY_THRESHOLD :: int
  ANOMALY_DETECTION_THRESHOLD :: real

definition default_config :: config where
  "default_config =
     \<lparr>CLIENT_EXPOSURE_THRESHOLD = 1000000, SYMBOL_EXPOSURE_THRESHOLD = 500000,
      TRANSACTION_VELOCITY_THRESHOLD = 10, ANOMALY_DETECTION_THRESHOLD = 3\<rparr>"


definition VELOCITY_WINDOW :: int where
  "VELOCITY_WINDOW = 60"

definition ANOMALY_WINDOW :: nat where
  "ANOMALY_WINDOW = 100"

text \<open>
  The collaborators the engine calls: the \<^verbatim>\<open>INSERT INTO alerts\<close> of
  \<^verbatim>\<open>create_alert\<close> (it raises, or yields the new row's id) and the
  \<^verbatim>\<open>UPDATE ... SET risk_level\<close> statements (they raise or succeed).
\<close>

record env =
  insert_alert :: "alert \<Rightarrow> error + nat"
  update_risk_level_ok :: "string \<Rightarrow> string \<Rightarrow> risk_level \<Rightarrow> bool"

text \<open>
  The fields of \<^verbatim>\<open>self\<close>, followed by the trace of what the engine did to the
  outside: the alerts handed to \<^verbatim>\<open>AlertSystem.send_alert\<close>, the risk levels
  written to the exposure tables, and the metrics rows written.
  A \<^verbatim>\<open>defaultdict\<close> of deques is a total function whose default is the empty deque.
\<close>

record engine =
  running :: bool
  client_transactions :: "string \<Rightarrow> int list"
  symbol_transactions :: "string \<Rightarrow> int list"
  transaction_values :: "real list"
  last_transaction_id :: int
  alerts_generated :: nat
  transactions_processed :: nat
  sent_alerts :: "alert list"
  risk_level_writes :: "(string \<times> string \<times> risk_level) list"
  metrics_written :: "nat list"

definition init_engine :: engine where
  "init_engine =
     \<lparr>running = False, client_transactions = (\<lambda>_. []), symbol_transactions = (\<lambda>_. []),
      transaction_values = [], last_transaction_id = 0, alerts_generated = 0,
      transactions_processed = 0, sent_alerts = [], risk_level_writes = [],
      metrics_written = []\<rparr>"

subsection \<open>Exposure classification\<close>

definition calculate_risk_level :: "real \<Rightarrow> real \<Rightarrow> error + risk_level" where
  "calculate_risk_level exposure threshold =
     (if threshold = 0 then Inl ZeroDivisionError
      else let ratio = exposure / threshold in
        if ratio \<ge> 1 then Inr CRITICAL
        else if ratio \<ge> 0.75 then Inr HIGH
        else if ratio \<ge> 0.5 then Inr MEDIUM
        else Inr LOW)"

definition update_client_risk_level :: "env \<Rightarrow> engine \<Rightarrow> string \<Rightarrow> risk_level \<Rightarrow> engine" where
  "update_client_risk_level e s client_id lvl =
     (if update_risk_level_ok e ''CLIENT'' client_id lvl
      then s\<lparr>risk_level_writes := risk_level_writes s @ [(''CLIENT'', client_id, lvl)]\<rparr>
      else s)"

definition update_symbol_risk_level :: "env \<Rightarrow> engine \<Rightarrow> string \<Rightarrow> risk_level \<Rightarrow> engine" where
  "update_symbol_risk_level e s symbol lvl =
     (if update_risk_level_ok e ''SYMBOL'' symbol lvl
      then s\<lparr>risk_level_writes := risk_level_writes s @ [(''SYMBOL'', symbol, lvl)]\<rparr>
      else s)"

definition check_client_exposure ::
  "config \<Rightarrow> env \<Rightarrow> engine \<Rightarrow> string \<Rightarrow> real \<Rightarrow> error + (alert option \<times> engine)" where
  "check_client_exposure c e s client_id exposure =
     (case calculate_risk_level exposure (CLIENT_EXPOSURE_THRESHOLD c) of
        Inl err \<Rightarrow> Inl err
      | Inr lvl \<Rightarrow>
          if exposure > CLIENT_EXPOSURE_THRESHOLD c then
            Inr (Some \<lparr>alert_type = HIGH_CLIENT_EXPOSURE,
                       severity = (if exposure > CLIENT_EXPOSURE_THRESHOLD c * 1.5
                                   then CRITICAL else HIGH),
                       entity_type = ''CLIENT'', entity_id = client_id,
                       message = Client_exposure_msg client_id exposure
                                   (CLIENT_EXPOSURE_THRESHOLD c),
                       threshold_value = CLIENT_EXPOSURE_THRESHOLD c,
                       current_value = exposure\<rparr>, s)
          else Inr (None, update_client_risk_level e s client_id lvl))"

definition check_symbol_exposure ::
  "config \<Rightarrow> env \<Rightarrow> engine \<Rightarrow> string \<Rightarrow> real \<Rightarrow> error + (alert option \<times> engine)" where
  "check_symbol_exposure c e s symbol exposure =
     (case calculate_risk_level exposure (SYMBOL_EXPOSURE_THRESHOLD c) of
        Inl err \<Rightarrow> Inl err
      | Inr lvl \<Rightarrow>
          if exposure > SYMBOL_EXPOSURE_THRESHOLD c then
            Inr (Some \<lparr>alert_type = HIGH_SYMBOL_EXPOSURE,
                       severity = (if exposure > SYMBOL_EXPOSURE_THRESHOLD c * 1.5
                                   then CRITICAL else HIGH),
                       entity_type = ''SYMBOL'', entity_id = symbol,
                       message = Symbol_exposure_msg symbol exposure
                                   (SYMBOL_EXPOSURE_THRESHOLD c),
                       threshold_value = SYMBOL_EXPOSURE_THRESHOLD c,
                       current_value = exposure\<rparr>, s)
          else Inr (None, update_symbol_risk_level e s symbol lvl))"

subsection \<open>Alerts: the sink and the dispatcher\<close>

text \<open>
  \<^verbatim>\<open>AlertSystem.send_alert\<close> prints the alert and hands it to the configured
  channels, each of which catches its own exceptions: it never raises.
\<close>

definition send_alert :: "engine \<Rightarrow> alert \<Rightarrow> engine" where
  "send_alert s alert_data = s\<lparr>sent_alerts := sent_alerts s @ [alert_data]\<rparr>"

text \<open>
  \<^verbatim>\<open>create_alert\<close>: the insert, the dispatch and the counter are inside one
  \<^verbatim>\<open>try\<close>; an exception of the insert is printed and \<^verbatim>\<open>None\<close> is returned.
\<close>

definition create_alert :: "env \<Rightarrow> engine \<Rightarrow> alert \<Rightarrow> nat option \<times> engine" where
  "create_alert e s alert_data =
     (case insert_alert e alert_data of
        Inl err \<Rightarrow> (None, s)
      | Inr alert_id \<Rightarrow>
          (let s1 = send_alert s alert_data;
               s2 = s1\<lparr>alerts_generated := alerts_generated s1 + 1\<rparr>
           in (Some alert_id, s2)))"

subsection \<open>Velocity tracking\<close>

text \<open>\<^verbatim>\<open>deque(maxlen=n).append(x)\<close>: the oldest entries leave once the bound is passed.\<close>

definition deque_append :: "nat \<Rightarrow> 'a list \<Rightarrow> 'a \<Rightarrow> 'a list" where
  "deque_append maxlen xs x = (let ys = xs @ [x] in drop (length ys - maxlen) ys)"

text \<open>
  \<^verbatim>\<open>self.client_transactions[key].append(t)\<close>, on a \<^verbatim>\<open>defaultdict\<close> of
  \<^verbatim>\<open>deque(maxlen=100)\<close>.
\<close>

definition record_event :: "(string \<Rightarrow> int list) \<Rightarrow> string \<Rightarrow> int \<Rightarrow> (string \<Rightarrow> int list)" where
  "record_event tracker key t = tracker(key := deque_append 100 (tracker key) t)"

text \<open>\<^verbatim>\<open>sum(1 for tx_time in transactions if tx_time > cutoff)\<close>\<close>

definition recent_count :: "int list \<Rightarrow> int \<Rightarrow> nat" where
  "recent_count transactions cutoff =
     sum_list [1. tx_time \<leftarrow> transactions, tx_time > cutoff]"

definition check_transaction_velocity ::
  "config \<Rightarrow> string \<Rightarrow> string \<Rightarrow> int list \<Rightarrow> int \<Rightarrow> alert option" where
  "check_transaction_velocity c entity_type' entity_id' transactions now =
     (if length transactions < 2 then None
      else
        let cutoff = now - VELOCITY_WINDOW * 1000000;
            count = recent_count transactions cutoff
        in if int count > TRANSACTION_VELOCITY_THRESHOLD c then
             Some \<lparr>alert_type = HIGH_TRANSACTION_VELOCITY, severity = HIGH,
                   entity_type = entity_type', entity_id = entity_id',
                   message = Velocity_msg entity_type' entity_id' count VELOCITY_WINDOW
                               (TRANSACTION_VELOCITY_THRESHOLD c),
                   threshold_value = real_of_int (TRANSACTION_VELOCITY_THRESHOLD c),
                   current_value = real count\<rparr>
           else None)"

subsection \<open>Anomaly detection\<close>

definition np_mean :: "real list \<Rightarrow> real" where
  "np_mean xs = sum_list xs / real (length xs)"

text \<open>\<^verbatim>\<open>np.std\<close> is the population standard deviation.\<close>

definition np_std :: "real list \<Rightarrow> real" where
  "np_std xs = sqrt (np_mean (map (\<lambda>x. \<bar>x - np_mean xs\<bar>\<^sup>2) xs))"

text \<open>
  The quotient of the z-score. A zero divisor is a result of its own, so that its
  absence can be stated (numpy would warn and yield an infinity or a NaN there).
\<close>

definition float_div :: "real \<Rightarrow> real \<Rightarrow> error + real" where
  "float_div a b = (if b = 0 then Inl ZeroDivisionError else Inr (a / b))"

definition detect_anomaly :: "config \<Rightarrow> real list \<Rightarrow> real \<Rightarrow> error + alert option" where
  "detect_anomaly c values transaction_value =
     (if length values < 30 then Inr None
      else
        let mean = np_mean values; std = np_std values in
        if std = 0 then Inr None
        else
          case float_div (transaction_value - mean) std of
            Inl err \<Rightarrow> Inl err
          | Inr q \<Rightarrow>
              let z_score = \<bar>q\<bar> in
              if z_score > ANOMALY_DETECTION_THRESHOLD c then
                Inr (Some \<lparr>alert_type = ANOMALY_DETECTED,
                           severity = (if z_score < 4 then MEDIUM else HIGH),
                           entity_type = ''SYSTEM'', entity_id = ''TRANSACTION_MONITOR'',
                           message = Anomaly_msg transaction_value z_score mean std,
                           threshold_value = mean + ANOMALY_DETECTION_THRESHOLD c * std,
                           current_value = transaction_value\<rparr>)
              else Inr None)"

subsection \<open>Processing new transactions\<close>

text \<open>
  A row of \<^verbatim>\<open>transactions\<close>, with the columns the engine reads. A stored value that
  \<^verbatim>\<open>float\<close> rejects (\<^verbatim>\<open>NULL\<close>, or text in a dynamically typed SQLite column)
  is \<open>None\<close>.
\<close>

record transaction =
  transaction_id :: int
  client_id :: string
  symbol :: string
  total_value :: "real option"

definition py_float :: "real option \<Rightarrow> error + real" where
  "py_float v = (case v of None \<Rightarrow> Inl TypeError | Some x \<Rightarrow> Inr x)"

text \<open>The values of the \<^verbatim>\<open>datetime.now()\<close> calls made while one transaction is processed.\<close>

record clock =
  now_client_append :: int
  now_symbol_append :: int
  now_client_check :: int
  now_symbol_check :: int

definition emit :: "env \<Rightarrow> engine \<Rightarrow> alert option \<Rightarrow> engine" where
  "emit e s alert = (case alert of None \<Rightarrow> s | Some a \<Rightarrow> snd (create_alert e s a))"

text \<open>
  The body of the \<^verbatim>\<open>for tx in transactions\<close> loop. The result is the state reached
  and the exception that left the body, if any.
\<close>

definition process_transaction ::
  "config \<Rightarrow> env \<Rightarrow> clock \<Rightarrow> engine \<Rightarrow> transaction \<Rightarrow> engine \<times> error option" where
  "process_transaction c e clk s tx =
     (let s1 = s\<lparr>client_transactions :=
                     record_event (client_transactions s) (client_id tx) (now_client_append clk)\<rparr>;
          s2 = s1\<lparr>symbol_transactions :=
                     record_event (symbol_transactions s1) (symbol tx) (now_symbol_append clk)\<rparr>
      in case py_float (total_value tx) of
           Inl err \<Rightarrow> (s2, Some err)
         | Inr v \<Rightarrow>
             (let s3 = s2\<lparr>transaction_values :=
                           deque_append ANOMALY_WINDOW (transaction_values s2) v\<rparr>
              in case detect_anomaly c (transaction_values s3) v of
                  Inl err \<Rightarrow> (s3, Some err)
                | Inr anomaly_alert \<Rightarrow>
                    let s4 = emit e s3 anomaly_alert;
                        s5 = emit e s4 (check_transaction_velocity c ''CLIENT'' (client_id tx)
                               (client_transactions s4 (client_id tx)) (now_client_check clk));
                        s6 = emit e s5 (check_transaction_velocity c ''SYMBOL'' (symbol tx)
                               (symbol_transactions s5 (symbol tx)) (now_symbol_check clk));
                        s7 = s6\<lparr>transactions_processed := transactions_processed s6 + 1\<rparr>
                    in (s7\<lparr>last_transaction_id := transaction_id tx\<rparr>, None)))"

text \<open>The loop: an exception of one iteration ends it.\<close>

fun process_batch ::
  "config \<Rightarrow> env \<Rightarrow> (transaction \<Rightarrow> clock) \<Rightarrow> engine \<Rightarrow> transaction list
     \<Rightarrow> engine \<times> error option" where
  "process_batch c e clk s [] = (s, None)"
| "process_batch c e clk s (tx # txs) =
     (case process_transaction c e (clk tx) s tx of
        (s', Some err) \<Rightarrow> (s', Some err)
      | (s', None) \<Rightarrow> process_batch c e clk s' txs)"

text \<open>
  \<^verbatim>\<open>SELECT * FROM transactions WHERE transaction_id > ? ORDER BY transaction_id\<close>
\<close>

definition select_new_transactions :: "transaction list \<Rightarrow> int \<Rightarrow> transaction list" where
  "select_new_transactions table cursor =
     sort_key transaction_id (filter (\<lambda>tx. transaction_id tx > cursor) table)"

text \<open>
  What one monitoring cycle reads from outside: the result of each query (an exception, or
  the rows of the table at that moment), the clock, and whether the metrics insert succeeds.
\<close>

record cycle_input =
  transactions_query :: "error + transaction list"
  now :: "transaction \<Rightarrow> clock"
  client_exposures_query :: "error + (string \<times> real option) list"
  symbol_exposures_query :: "error + (string \<times> real option) list"
  metrics_ok :: bool

definition process_new_transactions :: "config \<Rightarrow> env \<Rightarrow> cycle_input \<Rightarrow> engine \<Rightarrow> engine" where
  "process_new_transactions c e inp s =
     (case transactions_query inp of
        Inl err \<Rightarrow> s
      | Inr table \<Rightarrow>
          fst (process_batch c e (now inp) s
                 (select_new_transactions table (last_transaction_id s))))"

subsection \<open>Checking exposures\<close>

fun check_client_rows ::
  "config \<Rightarrow> env \<Rightarrow> engine \<Rightarrow> (string \<times> real option) list \<Rightarrow> engine \<times> error option" where
  "check_client_rows c e s [] = (s, None)"
| "check_client_rows c e s ((client_id', total_exposure) # rows) =
     (case py_float total_exposure of
        Inl err \<Rightarrow> (s, Some err)
      | Inr x \<Rightarrow>
          (case check_client_exposure c e s client_id' x of
             Inl err \<Rightarrow> (s, Some err)
           | Inr (alert, s') \<Rightarrow> check_client_rows c e (emit e s' alert) rows))"

fun check_symbol_rows ::
  "config \<Rightarrow> env \<Rightarrow> engine \<Rightarrow> (string \<times> real option) list \<Rightarrow> engine \<times> error option" where
  "check_symbol_rows c e s [] = (s, None)"
| "check_symbol_rows c e s ((symbol', total_exposure) # rows) =
     (case py_float total_exposure of
        Inl err \<Rightarrow> (s, Some err)
      | Inr x \<Rightarrow>
          (case check_symbol_exposure c e s symbol' x of
             Inl err \<Rightarrow> (s, Some err)
           | Inr (alert, s') \<Rightarrow> check_symbol_rows c e (emit e s' alert) rows))"

definition check_exposures :: "config \<Rightarrow> env \<Rightarrow> cycle_input \<Rightarrow> engine \<Rightarrow> engine" where
  "check_exposures c e inp s =
     (case client_exposures_query inp of
        Inl err \<Rightarrow> s
      | Inr rows \<Rightarrow>
          (case check_client_rows c e s rows of
             (s', Some err) \<Rightarrow> s'
           | (s', None) \<Rightarrow>
               (case symbol_exposures_query inp of
                  Inl err \<Rightarrow> s'
                | Inr rows' \<Rightarrow> fst (check_symbol_rows c e s' rows'))))"

subsection \<open>The monitoring loop\<close>

definition update_risk_metrics :: "cycle_input \<Rightarrow> engine \<Rightarrow> engine" where
  "update_risk_metrics inp s =
     (if metrics_ok inp then s\<lparr>metrics_written := metrics_written s @ [alerts_generated s]\<rparr>
      else s)"

definition monitor_cycle :: "config \<Rightarrow> env \<Rightarrow> nat \<Rightarrow> cycle_input \<Rightarrow> engine \<Rightarrow> engine" where
  "monitor_cycle c e iteration inp s =
     (let s1 = process_new_transactions c e inp s;
          s2 = check_exposures c e inp s1
      in if iteration mod 10 = 0 then update_risk_metrics inp s2 else s2)"

text \<open>
  The \<^verbatim>\<open>while self.running\<close> loop, run for as many cycles as inputs are given; the
  interrupt that clears \<^verbatim>\<open>running\<close> and ends it arrives after the last one.
\<close>

fun monitor_iterations ::
  "config \<Rightarrow> env \<Rightarrow> nat \<Rightarrow> engine \<Rightarrow> cycle_input list \<Rightarrow> engine" where
  "monitor_iterations c e iteration s [] = s"
| "monitor_iterations c e iteration s (inp # inps) =
     monitor_iterations c e (iteration + 1) (monitor_cycle c e (iteration + 1) inp s) inps"

definition monitor_loop :: "config \<Rightarrow> env \<Rightarrow> engine \<Rightarrow> cycle_input list \<Rightarrow> engine" where
  "monitor_loop c e s inps =
     (monitor_iterations c e 0 (s\<lparr>running := True\<rparr>) inps)\<lparr>running := False\<rparr>"


subsection \<open>Observations used in the statements\<close>

text \<open>A sink that stores every alert, and one whose insert always raises.\<close>

definition working_env :: env where
  "working_env = \<lparr>insert_alert = (\<lambda>_. Inr 1), update_risk_level_ok = (\<lambda>_ _ _. True)\<rparr>"

definition failing_env :: env where
  "failing_env =
     \<lparr>insert_alert = (\<lambda>_. Inl DatabaseError), update_risk_level_ok = (\<lambda>_ _ _. True)\<rparr>"

text \<open>What an exposure check returned: the severity of its alert, and whether there is one.\<close>

definition alert_severity :: "error + (alert option \<times> engine) \<Rightarrow> risk_level option" where
  "alert_severity r = (case r of Inr (Some a, _) \<Rightarrow> Some (severity a) | _ \<Rightarrow> None)"

definition triggered :: "error + (alert option \<times> engine) \<Rightarrow> bool" where
  "triggered r = (case r of Inr (Some a, _) \<Rightarrow> True | _ \<Rightarrow> False)"

text \<open>A sequence of \<open>record_event\<close> calls, for any keys in any order.\<close>

fun record_events :: "(string \<Rightarrow> int list) \<Rightarrow> (string \<times> int) list \<Rightarrow> (string \<Rightarrow> int list)" where
  "record_events tracker [] = tracker"
| "record_events tracker ((key, t) # evs) = record_events (record_event tracker key t) evs"

text \<open>
  The ids of the transactions whose loop iteration ran to its end, in the order of the
  loop: of one batch, of one cycle, and of a run of cycles.
\<close>

fun processed_in_batch ::
  "config \<Rightarrow> env \<Rightarrow> (transaction \<Rightarrow> clock) \<Rightarrow> engine \<Rightarrow> transaction list \<Rightarrow> int list" where
  "processed_in_batch c e clk s [] = []"
| "processed_in_batch c e clk s (tx # txs) =
     (case process_transaction c e (clk tx) s tx of
        (s', Some err) \<Rightarrow> []
      | (s', None) \<Rightarrow> transaction_id tx # processed_in_batch c e clk s' txs)"

definition processed_in_cycle :: "config \<Rightarrow> env \<Rightarrow> cycle_input \<Rightarrow> engine \<Rightarrow> int list" where
  "processed_in_cycle c e inp s =
     (case transactions_query inp of
        Inl err \<Rightarrow> []
      | Inr table \<Rightarrow>
          processed_in_batch c e (now inp) s
            (select_new_transactions table (last_transaction_id s)))"

fun processed_ids :: "config \<Rightarrow> env \<Rightarrow> nat \<Rightarrow> engine \<Rightarrow> cycle_input list \<Rightarrow> int list" where
  "processed_ids c e iteration s [] = []"
| "processed_ids c e iteration s (inp # inps) =
     processed_in_cycle c e inp s
       @ processed_ids c e (iteration + 1) (monitor_cycle c e (iteration + 1) inp s) inps"

text \<open>Sample inputs for the concrete instances below.\<close>

definition clock0 :: clock where
  "clock0 = \<lparr>now_client_append = 0, now_symbol_append = 0, now_client_check = 0,
              now_symbol_check = 0\<rparr>"

definition sample_alert :: alert where
  "sample_alert = \<lparr>alert_type = HIGH_CLIENT_EXPOSURE, severity = HIGH, entity_type = ''CLIENT'',
     entity_id = ''CLIENT_001'', message = Client_exposure_msg ''CLIENT_001'' 1250000 1000000,
     threshold_value = 1000000, current_value = 1250000\<rparr>"

definition bad_tx :: transaction where
  "bad_tx = \<lparr>transaction_id = 1, client_id = ''CLIENT_001'', symbol = ''AAPL'',
              total_value = None\<rparr>"

definition good_tx :: transaction where
  "good_tx = \<lparr>transaction_id = 2, client_id = ''CLIENT_002'', symbol = ''MSFT'',
               total_value = Some 100\<rparr>"

definition cycle0 :: cycle_input where
  "cycle0 = \<lparr>transactions_query = Inr [bad_tx, good_tx], now = (\<lambda>_. clock0),
     client_exposures_query = Inr [(''CLIENT_001'', Some 1250000)],
     symbol_exposures_query = Inr [], metrics_ok = True\<rparr>"

definition baseline_engine :: engine where
  "baseline_engine = init_engine\<lparr>transaction_values := replicate 36 0\<rparr>"

definition tx37 :: transaction where
  "tx37 = \<lparr>transaction_id = 1, client_id = ''CLIENT_001'', symbol = ''AAPL'',
            total_value = Some 37\<rparr>"



section \<open>Properties\<close>

subsection \<open>Exposure checks\<close>

lemma calculate_risk_level_no_error:
  "t \<noteq> 0 \<Longrightarrow> \<exists>lvl. calculate_risk_level x t = Inr lvl"
  unfolding calculate_risk_level_def Let_def
  by (simp only: if_not_P split: if_split) blast

lemma calculate_risk_level_at_threshold:
  "t \<noteq> 0 \<Longrightarrow> calculate_risk_level t t = Inr CRITICAL"
  by (simp add: calculate_risk_level_def)

text \<open>
  C1, as amended. For a positive client threshold, the alert of the exposure check has
  severity CRITICAL when the exposure is above 1.5 times the threshold and HIGH when it is
  above the threshold but not above 1.5 times it; at or below the threshold there is no
  alert. At an exposure equal to the threshold (ratio exactly 1.0) the check returns no
  alert and writes the risk level CRITICAL, which \<open>calculate_risk_level\<close> gives to every
  ratio from 1.0 on.
\<close>

theorem client_exposure_severity:
  assumes "0 < CLIENT_EXPOSURE_THRESHOLD c"
  shows "alert_severity (check_client_exposure c e s cid x) =
           (if x > CLIENT_EXPOSURE_THRESHOLD c * 1.5 then Some CRITICAL
            else if x > CLIENT_EXPOSURE_THRESHOLD c then Some HIGH else None)
         \<and> check_client_exposure c e s cid (CLIENT_EXPOSURE_THRESHOLD c) =
             Inr (None, update_client_risk_level e s cid CRITICAL)"
proof -
  let ?t = "CLIENT_EXPOSURE_THRESHOLD c"
  from assms have nz: "?t \<noteq> 0" by simp
  obtain lvl where lvl: "calculate_risk_level x ?t = Inr lvl"
    using calculate_risk_level_no_error [OF nz] by blast
  have "?t * 1.5 < x \<Longrightarrow> ?t < x" using assms by simp
  then have a: "alert_severity (check_client_exposure c e s cid x) =
           (if x > ?t * 1.5 then Some CRITICAL else if x > ?t then Some HIGH else None)"
    by (simp add: check_client_exposure_def lvl alert_severity_def)
  have b: "check_client_exposure c e s cid ?t =
             Inr (None, update_client_risk_level e s cid CRITICAL)"
    by (simp add: check_client_exposure_def calculate_risk_level_at_threshold [OF nz])
  from a b show ?thesis by simp
qed

theorem client_exposure_severity_witness:
  "0 < CLIENT_EXPOSURE_THRESHOLD default_config
   \<and> alert_severity (check_client_exposure default_config working_env init_engine
        ''CLIENT_001'' 1250000) = Some HIGH
   \<and> alert_severity (check_client_exposure default_config working_env init_engine
        ''CLIENT_001'' 1600000) = Some CRITICAL"
  using client_exposure_severity
      [of default_config working_env init_engine "''CLIENT_001''" 1250000]
    client_exposure_severity
      [of default_config working_env init_engine "''CLIENT_001''" 1600000]
  by (simp add: default_config_def)

text \<open>
  The claim C1 as written fails where the exposure equals the threshold 1,000,000: the
  ratio is 1.0 and the exposure is not above 1.5 times the threshold, yet the level
  computed and written is CRITICAL, and there is no alert.
\<close>

theorem ratio_one_not_high_counterexample:
  "0 < CLIENT_EXPOSURE_THRESHOLD default_config
   \<and> 1000000 / CLIENT_EXPOSURE_THRESHOLD default_config \<ge> 1
   \<and> \<not> 1000000 > CLIENT_EXPOSURE_THRESHOLD default_config * 1.5
   \<and> calculate_risk_level 1000000 (CLIENT_EXPOSURE_THRESHOLD default_config) = Inr CRITICAL
   \<and> check_client_exposure default_config working_env init_engine ''CLIENT_001'' 1000000 =
       Inr (None, init_engine\<lparr>risk_level_writes := [(''CLIENT'', ''CLIENT_001'', CRITICAL)]\<rparr>)"
  by (simp add: default_config_def calculate_risk_level_def check_client_exposure_def
      update_client_risk_level_def working_env_def init_engine_def)

text \<open>
  C3, as amended. With non-zero thresholds, the client and the symbol check return an alert
  exactly when the exposure is strictly above the threshold; at an exposure equal to the
  threshold neither returns one.
\<close>

theorem exposure_trigger_strict:
  assumes "CLIENT_EXPOSURE_THRESHOLD c \<noteq> 0" and "SYMBOL_EXPOSURE_THRESHOLD c \<noteq> 0"
  shows "triggered (check_client_exposure c e s cid x) = (x > CLIENT_EXPOSURE_THRESHOLD c)
       \<and> triggered (check_symbol_exposure c e s sy y) = (y > SYMBOL_EXPOSURE_THRESHOLD c)
       \<and> \<not> triggered (check_client_exposure c e s cid (CLIENT_EXPOSURE_THRESHOLD c))
       \<and> \<not> triggered (check_symbol_exposure c e s sy (SYMBOL_EXPOSURE_THRESHOLD c))"
proof -
  obtain l1 where l1: "calculate_risk_level x (CLIENT_EXPOSURE_THRESHOLD c) = Inr l1"
    using calculate_risk_level_no_error [OF assms(1)] by blast
  obtain l2 where l2: "calculate_risk_level y (SYMBOL_EXPOSURE_THRESHOLD c) = Inr l2"
    using calculate_risk_level_no_error [OF assms(2)] by blast
  have a: "triggered (check_client_exposure c e s cid x) = (x > CLIENT_EXPOSURE_THRESHOLD c)"
    by (simp add: check_client_exposure_def l1 triggered_def)
  have b: "triggered (check_symbol_exposure c e s sy y) = (y > SYMBOL_EXPOSURE_THRESHOLD c)"
    by (simp add: check_symbol_exposure_def l2 triggered_def)
  have c: "\<not> triggered (check_client_exposure c e s cid (CLIENT_EXPOSURE_THRESHOLD c))"
    by (simp add: check_client_exposure_def calculate_risk_level_at_threshold [OF assms(1)]
        triggered_def)
  have d: "\<not> triggered (check_symbol_exposure c e s sy (SYMBOL_EXPOSURE_THRESHOLD c))"
    by (simp add: check_symbol_exposure_def calculate_risk_level_at_threshold [OF assms(2)]
        triggered_def)
  from a b c d show ?thesis by simp
qed

theorem exposure_trigger_strict_witness:
  "CLIENT_EXPOSURE_THRESHOLD default_config \<noteq> 0
   \<and> SYMBOL_EXPOSURE_THRESHOLD default_config \<noteq> 0
   \<and> triggered (check_client_exposure default_config working_env init_engine
        ''CLIENT_001'' 1000001)
   \<and> \<not> triggered (check_symbol_exposure default_config working_env init_engine
        ''AAPL'' 500000)"
  using exposure_trigger_strict
      [of default_config working_env init_engine "''CLIENT_001''" 1000001 "''AAPL''" 500000]
  by (simp add: default_config_def)

text \<open>
  The claim C3 as written fails at the symbol threshold 500,000: the check returns no
  alert there.
\<close>

theorem threshold_not_triggered_counterexample:
  "SYMBOL_EXPOSURE_THRESHOLD default_config = 500000
   \<and> check_symbol_exposure default_config working_env init_engine ''AAPL'' 500000 =
       Inr (None, init_engine\<lparr>risk_level_writes := [(''SYMBOL'', ''AAPL'', CRITICAL)]\<rparr>)
   \<and> \<not> triggered (check_symbol_exposure default_config working_env init_engine
        ''AAPL'' 500000)"
  by (simp add: default_config_def calculate_risk_level_def check_symbol_exposure_def
      update_symbol_risk_level_def working_env_def init_engine_def triggered_def)

subsection \<open>Alert creation\<close>

lemma emit_fields:
  "transaction_values (emit e s r) = transaction_values s"
  "client_transactions (emit e s r) = client_transactions s"
  "symbol_transactions (emit e s r) = symbol_transactions s"
  "last_transaction_id (emit e s r) = last_transaction_id s"
  "transactions_processed (emit e s r) = transactions_processed s"
  "running (emit e s r) = running s"
  by (simp_all add: emit_def create_alert_def send_alert_def Let_def
      split: option.split sum.split)

lemma emit_sent:
  "sent_alerts (emit e s r) =
     sent_alerts s
       @ (case r of None \<Rightarrow> [] | Some a \<Rightarrow> if isl (insert_alert e a) then [] else [a])"
  by (simp add: emit_def create_alert_def send_alert_def Let_def
      split: option.split sum.split)

text \<open>
  C6, as amended. \<open>create_alert\<close> hands the alert to the dispatcher exactly once when
  the insert into the alert table succeeds, and not at all when the insert raises; the
  counter of generated alerts moves with it. Every alert a check returns goes through
  \<open>create_alert\<close> once.
\<close>

theorem send_only_after_insert:
  "sent_alerts (snd (create_alert e s a)) =
     (if isl (insert_alert e a) then sent_alerts s else sent_alerts s @ [a])
   \<and> alerts_generated (snd (create_alert e s a)) =
     (if isl (insert_alert e a) then alerts_generated s else alerts_generated s + 1)
   \<and> emit e s (Some a) = snd (create_alert e s a)
   \<and> emit e s None = s"
  by (simp add: create_alert_def emit_def send_alert_def Let_def split: sum.split)

text \<open>
  The claim C6 as written fails when the insert raises: the alert of an exposure of
  1,250,000 is then never sent.
\<close>

theorem sink_failure_no_send_counterexample:
  "check_client_exposure default_config failing_env init_engine ''CLIENT_001'' 1250000 =
     Inr (Some sample_alert, init_engine)
   \<and> create_alert failing_env init_engine sample_alert = (None, init_engine)
   \<and> length (sent_alerts (snd (create_alert failing_env init_engine sample_alert))) = 0"
  by (simp add: check_client_exposure_def calculate_risk_level_def default_config_def
      sample_alert_def create_alert_def failing_env_def init_engine_def)

subsection \<open>Velocity\<close>

lemma recent_count_filter:
  "recent_count transactions cutoff =
     length (filter (\<lambda>tx_time. tx_time > cutoff) transactions)"
  unfolding recent_count_def by (induction transactions) simp_all

lemma deque_append_below:
  "length xs < maxlen \<Longrightarrow> deque_append maxlen xs x = xs @ [x]"
  by (simp add: deque_append_def)

lemma last_deque_append: "0 < maxlen \<Longrightarrow> last (deque_append maxlen xs x) = x"
  by (simp add: deque_append_def Let_def)

lemma record_event_other: "key' \<noteq> key \<Longrightarrow> record_event tracker key' t key = tracker key"
  by (simp add: record_event_def)

lemma record_event_same:
  "length (tracker key) < 100 \<Longrightarrow> record_event tracker key t key = tracker key @ [t]"
  by (simp add: record_event_def deque_append_below)

lemma record_events_below_capacity:
  "length (tracker key) + length (filter (\<lambda>ev. fst ev = key) evs) \<le> 100 \<Longrightarrow>
   record_events tracker evs key = tracker key @ map snd (filter (\<lambda>ev. fst ev = key) evs)"
proof (induction evs arbitrary: tracker)
  case Nil
  then show ?case by simp
next
  case (Cons ev evs)
  obtain k t where ev: "ev = (k, t)" by (cases ev)
  show ?case
  proof (cases "k = key")
    case True
    with Cons.prems ev have len: "length (tracker key) < 100" by simp
    have same: "record_event tracker key t key = tracker key @ [t]"
      using len by (rule record_event_same)
    have "length (record_event tracker k t key)
            + length (filter (\<lambda>ev. fst ev = key) evs) \<le> 100"
      using Cons.prems ev True by (simp add: same)
    with Cons.IH [of "record_event tracker k t"] show ?thesis
      using ev True by (simp add: same)
  next
    case False
    have "length (record_event tracker k t key)
            + length (filter (\<lambda>ev. fst ev = key) evs) \<le> 100"
      using Cons.prems ev False by (simp add: record_event_other)
    with Cons.IH [of "record_event tracker k t"] show ?thesis
      using ev False by (simp add: record_event_other)
  qed
qed

text \<open>
  C7. After any sequence of recordings, for any keys in any order, into an empty tracker,
  the count the velocity check computes for a key and a cutoff is the number of recorded
  timestamps of that key that are strictly greater than the cutoff, provided no more than
  100 (the capacity of the deque) were recorded for the key.
\<close>

theorem velocity_count_exact:
  assumes "length (filter (\<lambda>ev. fst ev = key) evs) \<le> 100"
  shows "recent_count (record_events (\<lambda>_. []) evs key) cutoff =
           length (filter (\<lambda>ev. fst ev = key \<and> snd ev > cutoff) evs)"
proof -
  have "record_events (\<lambda>_. []) evs key = map snd (filter (\<lambda>ev. fst ev = key) evs)"
    using record_events_below_capacity [of "\<lambda>_. []" key evs] assms by simp
  then show ?thesis
    by (simp add: recent_count_filter filter_map o_def conj_commute)
qed

theorem velocity_count_exact_witness:
  "length (filter (\<lambda>ev. fst ev = ''A'')
     [(''A'', 5), (''B'', 7), (''A'', 9), (''A'', 2 :: int)]) \<le> 100
   \<and> recent_count
        (record_events (\<lambda>_. []) [(''A'', 5), (''B'', 7), (''A'', 9), (''A'', 2)] ''A'') 4 = 2"
  using velocity_count_exact [of "''A''" "[(''A'', 5), (''B'', 7), (''A'', 9), (''A'', 2)]" 4]
  by simp

text \<open>
  C10. With fewer than two timestamps in the deque the velocity check returns no alert,
  whatever the threshold and whatever the count of recent timestamps would be.
\<close>

theorem velocity_needs_two_timestamps:
  assumes "length transactions < 2"
  shows "check_transaction_velocity c etype eid transactions t = None"
  using assms by (simp add: check_transaction_velocity_def)

theorem velocity_needs_two_timestamps_witness:
  "length [1000 :: int] < 2
   \<and> int (recent_count [1000] (1000 - VELOCITY_WINDOW * 1000000))
       > TRANSACTION_VELOCITY_THRESHOLD (default_config\<lparr>TRANSACTION_VELOCITY_THRESHOLD := 0\<rparr>)
   \<and> check_transaction_velocity (default_config\<lparr>TRANSACTION_VELOCITY_THRESHOLD := 0\<rparr>)
        ''CLIENT'' ''CLIENT_005'' [1000] 1000 = None"
  using velocity_needs_two_timestamps
      [of "[1000]" "default_config\<lparr>TRANSACTION_VELOCITY_THRESHOLD := 0\<rparr>" "''CLIENT''"
        "''CLIENT_005''" 1000]
  by (simp add: recent_count_def VELOCITY_WINDOW_def)

lemma velocity_alert_type:
  "check_transaction_velocity c etype eid transactions t = Some a \<Longrightarrow>
   alert_type a = HIGH_TRANSACTION_VELOCITY"
  by (auto simp add: check_transaction_velocity_def Let_def split: if_splits)

subsection \<open>Anomaly detection\<close>

lemma detect_anomaly_no_error: "detect_anomaly c values v \<noteq> Inl err"
  by (simp add: detect_anomaly_def float_div_def Let_def)

lemma detect_anomaly_type:
  "detect_anomaly c values v = Inr (Some a) \<Longrightarrow> alert_type a = ANOMALY_DETECTED"
  by (auto simp add: detect_anomaly_def float_div_def Let_def split: if_splits)

lemma np_std_constant: "0 < n \<Longrightarrow> np_std (replicate n x) = 0"
  by (simp add: np_std_def np_mean_def sum_list_replicate map_replicate_const)



subsection \<open>One transaction\<close>

lemma process_transaction_sent:
  assumes "total_value tx = Some v"
    and "detect_anomaly c (deque_append ANOMALY_WINDOW (transaction_values s) v) v = Inr r"
  shows "sent_alerts (fst (process_transaction c e clk s tx)) =
          sent_alerts s
            @ (case r of None \<Rightarrow> [] | Some a \<Rightarrow> if isl (insert_alert e a) then [] else [a])
            @ (case check_transaction_velocity c ''CLIENT'' (client_id tx)
                 (record_event (client_transactions s) (client_id tx) (now_client_append clk)
                    (client_id tx)) (now_client_check clk)
               of None \<Rightarrow> [] | Some a \<Rightarrow> if isl (insert_alert e a) then [] else [a])
            @ (case check_transaction_velocity c ''SYMBOL'' (symbol tx)
                 (record_event (symbol_transactions s) (symbol tx) (now_symbol_append clk)
                    (symbol tx)) (now_symbol_check clk)
               of None \<Rightarrow> [] | Some a \<Rightarrow> if isl (insert_alert e a) then [] else [a])"
  using assms
  by (simp add: process_transaction_def py_float_def Let_def emit_fields emit_sent)

text \<open>
  C2, as amended. The value of a transaction is appended to the window before
  \<open>detect_anomaly\<close> runs: the window the z-score is computed from is the one that
  already holds the value, as its newest entry. With a sink that accepts every alert, the
  anomaly alerts sent for a transaction are those of \<open>detect_anomaly\<close> on that window.
\<close>

theorem anomaly_scored_after_push:
  assumes "total_value tx = Some v" and "\<forall>a. \<not> isl (insert_alert e a)"
  shows "transaction_values (fst (process_transaction c e clk s tx)) =
           deque_append ANOMALY_WINDOW (transaction_values s) v
       \<and> last (deque_append ANOMALY_WINDOW (transaction_values s) v) = v
       \<and> filter (\<lambda>a. alert_type a = ANOMALY_DETECTED)
           (sent_alerts (fst (process_transaction c e clk s tx))) =
         filter (\<lambda>a. alert_type a = ANOMALY_DETECTED) (sent_alerts s)
           @ (case detect_anomaly c (deque_append ANOMALY_WINDOW (transaction_values s) v) v of
                Inr (Some a) \<Rightarrow> [a] | _ \<Rightarrow> [])"
proof -
  let ?w = "deque_append ANOMALY_WINDOW (transaction_values s) v"
  obtain r where r: "detect_anomaly c ?w v = Inr r"
    using detect_anomaly_no_error [of c ?w v] by (cases "detect_anomaly c ?w v") auto
  have vel: "\<And>etype eid ts t. filter (\<lambda>a. alert_type a = ANOMALY_DETECTED)
      (case check_transaction_velocity c etype eid ts t of None \<Rightarrow> [] | Some a \<Rightarrow> [a]) = []"
    by (auto split: option.split dest: velocity_alert_type)
  have anom: "filter (\<lambda>a. alert_type a = ANOMALY_DETECTED)
      (case r of None \<Rightarrow> [] | Some a \<Rightarrow> [a]) = (case r of None \<Rightarrow> [] | Some a \<Rightarrow> [a])"
    using r by (auto split: option.split dest: detect_anomaly_type)
  have a: "transaction_values (fst (process_transaction c e clk s tx)) = ?w"
    using assms(1) r by (simp add: process_transaction_def py_float_def Let_def emit_fields)
  have b: "last ?w = v"
    by (simp add: last_deque_append ANOMALY_WINDOW_def)
  have "sent_alerts (fst (process_transaction c e clk s tx)) =
          sent_alerts s @ (case r of None \<Rightarrow> [] | Some a \<Rightarrow> [a])
            @ (case check_transaction_velocity c ''CLIENT'' (client_id tx)
                 (record_event (client_transactions s) (client_id tx) (now_client_append clk)
                    (client_id tx)) (now_client_check clk) of None \<Rightarrow> [] | Some a \<Rightarrow> [a])
            @ (case check_transaction_velocity c ''SYMBOL'' (symbol tx)
                 (record_event (symbol_transactions s) (symbol tx) (now_symbol_append clk)
                    (symbol tx)) (now_symbol_check clk) of None \<Rightarrow> [] | Some a \<Rightarrow> [a])"
    using assms(2)
    by (simp add: process_transaction_sent [OF assms(1) r] split: option.split)
  then have c: "filter (\<lambda>a. alert_type a = ANOMALY_DETECTED)
           (sent_alerts (fst (process_transaction c e clk s tx))) =
         filter (\<lambda>a. alert_type a = ANOMALY_DETECTED) (sent_alerts s)
           @ (case r of None \<Rightarrow> [] | Some a \<Rightarrow> [a])"
    by (simp add: vel anom)
  have d: "(case detect_anomaly c ?w v of Inr (Some a) \<Rightarrow> [a] | _ \<Rightarrow> [])
             = (case r of None \<Rightarrow> [] | Some a \<Rightarrow> [a])"
    by (simp add: r split: option.split)
  from a b c d show ?thesis by simp
qed

theorem anomaly_scored_after_push_witness:
  "total_value tx37 = Some 37 \<and> (\<forall>a. \<not> isl (insert_alert working_env a))
   \<and> transaction_values (fst (process_transaction default_config working_env clock0
        baseline_engine tx37)) = replicate 36 0 @ [37]
   \<and> last (replicate 36 0 @ [37 :: real]) = 37"
  using anomaly_scored_after_push [of tx37 37 working_env default_config clock0 baseline_engine]
  by (simp add: tx37_def working_env_def baseline_engine_def init_engine_def deque_append_def
      ANOMALY_WINDOW_def)

lemma sqrt_36: "sqrt 36 = 6"
  using real_sqrt_abs [of 6] by simp

lemma window37_mean: "np_mean (replicate 36 0 @ [37]) = 1"
  by (simp add: np_mean_def sum_list_replicate)

lemma window37_std: "np_std (replicate 36 0 @ [37]) = 6"
  by (simp add: np_std_def window37_mean) (simp add: np_mean_def sum_list_replicate sqrt_36)

text \<open>
  The claim C2 as written fails on a window of 36 zeros and a transaction of value 37.
  Scored against the window without the value, the standard deviation is zero and there is
  no alert; the engine scores against the window with the value (mean 1, standard
  deviation 6, z-score 6) and sends an alert of severity HIGH.
\<close>

theorem push_before_score_counterexample:
  "detect_anomaly default_config (transaction_values baseline_engine) 37 = Inr None
   \<and> sent_alerts (fst (process_transaction default_config working_env clock0
        baseline_engine tx37)) =
       [\<lparr>alert_type = ANOMALY_DETECTED, severity = HIGH, entity_type = ''SYSTEM'',
         entity_id = ''TRANSACTION_MONITOR'', message = Anomaly_msg 37 6 1 6,
         threshold_value = 19, current_value = 37\<rparr>]"
proof -
  have a: "detect_anomaly default_config (transaction_values baseline_engine) 37 = Inr None"
    by (simp add: baseline_engine_def init_engine_def detect_anomaly_def np_std_constant)
  have w: "deque_append ANOMALY_WINDOW (replicate 36 0) (37::real) = replicate 36 0 @ [37]"
    by (simp add: deque_append_def ANOMALY_WINDOW_def)
  have d: "detect_anomaly default_config (replicate 36 0 @ [37]) 37 =
      Inr (Some \<lparr>alert_type = ANOMALY_DETECTED, severity = HIGH, entity_type = ''SYSTEM'',
         entity_id = ''TRANSACTION_MONITOR'', message = Anomaly_msg 37 6 1 6,
         threshold_value = 19, current_value = 37\<rparr>)"
    by (simp add: detect_anomaly_def window37_mean window37_std float_div_def
        default_config_def)
  have tv: "total_value tx37 = Some 37"
    by (simp add: tx37_def)
  have d': "detect_anomaly default_config
              (deque_append ANOMALY_WINDOW (transaction_values baseline_engine) 37) 37 =
      Inr (Some \<lparr>alert_type = ANOMALY_DETECTED, severity = HIGH, entity_type = ''SYSTEM'',
         entity_id = ''TRANSACTION_MONITOR'', message = Anomaly_msg 37 6 1 6,
         threshold_value = 19, current_value = 37\<rparr>)"
    by (simp add: baseline_engine_def init_engine_def w d)
  have b: "sent_alerts (fst (process_transaction default_config working_env clock0
        baseline_engine tx37)) =
       [\<lparr>alert_type = ANOMALY_DETECTED, severity = HIGH, entity_type = ''SYSTEM'',
         entity_id = ''TRANSACTION_MONITOR'', message = Anomaly_msg 37 6 1 6,
         threshold_value = 19, current_value = 37\<rparr>]"
    by (subst process_transaction_sent [OF tv d'])
      (simp add: baseline_engine_def init_engine_def record_event_same
        check_transaction_velocity_def working_env_def)
  from a b show ?thesis by simp
qed

lemma process_transaction_ok:
  assumes "process_transaction c e clk s tx = (s', None)"
  shows "last_transaction_id s' = transaction_id tx"
    and "transactions_processed s' = transactions_processed s + 1"
  using assms
  by (auto simp add: process_transaction_def Let_def emit_fields split: sum.splits)

lemma process_transaction_raises:
  assumes "process_transaction c e clk s tx = (s', Some err)"
  shows "last_transaction_id s' = last_transaction_id s"
    and "transactions_processed s' = transactions_processed s"
  using assms
  by (auto simp add: process_transaction_def Let_def emit_fields split: sum.splits)

subsection \<open>One batch\<close>

lemma process_batch_append:
  "process_batch c e clk s (xs @ ys) =
     (case process_batch c e clk s xs of
        (s', Some err) \<Rightarrow> (s', Some err)
      | (s', None) \<Rightarrow> process_batch c e clk s' ys)"
  by (induction xs arbitrary: s) (auto split: prod.splits option.splits)

lemma processed_in_batch_append:
  "processed_in_batch c e clk s (xs @ ys) =
     (case process_batch c e clk s xs of
        (s', Some err) \<Rightarrow> processed_in_batch c e clk s xs
      | (s', None) \<Rightarrow> processed_in_batch c e clk s xs @ processed_in_batch c e clk s' ys)"
  by (induction xs arbitrary: s) (auto split: prod.splits option.splits)

lemma processed_in_batch_all:
  "process_batch c e clk s xs = (s', None) \<Longrightarrow>
   processed_in_batch c e clk s xs = map transaction_id xs"
  by (induction xs arbitrary: s) (auto split: prod.splits option.splits)

text \<open>
  C4, as amended. When the processing of a transaction raises, the loop over the batch
  ends there: the transactions before it are the ones processed, the failing one is not
  counted and does not move the cursor, and the transactions after it are not processed
  in this cycle. The exception is caught in \<open>process_new_transactions\<close>, so the cycle
  goes on with the exposure checks and, every tenth iteration, the metrics.
\<close>

theorem batch_stops_at_first_error:
  assumes "process_batch c e clk s pre = (s1, None)"
    and "process_transaction c e (clk bad) s1 bad = (s2, Some err)"
  shows "process_batch c e clk s (pre @ bad # rest) = (s2, Some err)
       \<and> processed_in_batch c e clk s (pre @ bad # rest) = map transaction_id pre
       \<and> transactions_processed s2 = transactions_processed s1
       \<and> last_transaction_id s2 = last_transaction_id s1
       \<and> monitor_cycle c e iteration inp s0 =
           (if iteration mod 10 = 0
            then update_risk_metrics inp
                   (check_exposures c e inp (process_new_transactions c e inp s0))
            else check_exposures c e inp (process_new_transactions c e inp s0))"
  using assms process_transaction_raises [OF assms(2)] processed_in_batch_all [OF assms(1)]
  by (simp add: process_batch_append processed_in_batch_append monitor_cycle_def Let_def)

theorem batch_stops_at_first_error_witness:
  "process_batch default_config working_env (\<lambda>_. clock0) init_engine [] = (init_engine, None)
   \<and> snd (process_transaction default_config working_env clock0 init_engine bad_tx)
       = Some TypeError
   \<and> snd (process_batch default_config working_env (\<lambda>_. clock0) init_engine
        ([] @ bad_tx # [good_tx])) = Some TypeError
   \<and> processed_in_batch default_config working_env (\<lambda>_. clock0) init_engine
        ([] @ bad_tx # [good_tx]) = []"
  using batch_stops_at_first_error [of default_config working_env "\<lambda>_. clock0" init_engine "[]"
      init_engine bad_tx
      "fst (process_transaction default_config working_env clock0 init_engine bad_tx)"
      TypeError "[good_tx]"]
  by (simp add: process_transaction_def bad_tx_def py_float_def Let_def)

lemma select_cycle0: "select_new_transactions [bad_tx, good_tx] 0 = [bad_tx, good_tx]"
  by (simp add: select_new_transactions_def bad_tx_def good_tx_def)

text \<open>
  The claim C4 as written fails on a batch of a transaction whose value is not a number
  followed by a sound one: the sound one, which is processed when it comes alone, is left
  untouched by the cycle, while the exposure check of the same cycle still sends its alert.
\<close>

theorem batch_aborted_counterexample:
  "snd (process_transaction default_config working_env clock0 init_engine good_tx) = None
   \<and> transactions_processed (monitor_cycle default_config working_env 1 cycle0 init_engine) = 0
   \<and> last_transaction_id (monitor_cycle default_config working_env 1 cycle0 init_engine) = 0
   \<and> symbol_transactions (monitor_cycle default_config working_env 1 cycle0 init_engine)
        ''MSFT'' = []
   \<and> sent_alerts (monitor_cycle default_config working_env 1 cycle0 init_engine)
        = [sample_alert]"
proof -
  have good:
    "snd (process_transaction default_config working_env clock0 init_engine good_tx) = None"
    using detect_anomaly_no_error
    by (simp add: process_transaction_def good_tx_def py_float_def Let_def split: sum.split)
  have p: "process_new_transactions default_config working_env cycle0 init_engine =
      init_engine\<lparr>client_transactions := (\<lambda>_. [])(''CLIENT_001'' := [0]),
                  symbol_transactions := (\<lambda>_. [])(''AAPL'' := [0])\<rparr>"
    by (simp add: process_new_transactions_def cycle0_def init_engine_def select_cycle0
        process_transaction_def py_float_def Let_def record_event_def deque_append_def clock0_def)
      (simp add: bad_tx_def)
  have x: "check_exposures default_config working_env cycle0
      (init_engine\<lparr>client_transactions := (\<lambda>_. [])(''CLIENT_001'' := [0]),
                  symbol_transactions := (\<lambda>_. [])(''AAPL'' := [0])\<rparr>) =
      init_engine\<lparr>client_transactions := (\<lambda>_. [])(''CLIENT_001'' := [0]),
                  symbol_transactions := (\<lambda>_. [])(''AAPL'' := [0]),
                  alerts_generated := 1, sent_alerts := [sample_alert]\<rparr>"
    by (simp add: check_exposures_def cycle0_def py_float_def check_client_exposure_def
        calculate_risk_level_def default_config_def emit_def create_alert_def working_env_def
        send_alert_def init_engine_def sample_alert_def)
  have "monitor_cycle default_config working_env 1 cycle0 init_engine =
      init_engine\<lparr>client_transactions := (\<lambda>_. [])(''CLIENT_001'' := [0]),
                  symbol_transactions := (\<lambda>_. [])(''AAPL'' := [0]),
                  alerts_generated := 1, sent_alerts := [sample_alert]\<rparr>"
    by (simp add: monitor_cycle_def Let_def p x)
  with good show ?thesis by (simp add: init_engine_def)
qed

lemma process_batch_cursor:
  "last_transaction_id (fst (process_batch c e clk s txs)) =
     last (last_transaction_id s # processed_in_batch c e clk s txs)"
proof (induction txs arbitrary: s)
  case Nil
  show ?case by simp
next
  case (Cons tx txs)
  obtain s' r where pt: "process_transaction c e (clk tx) s tx = (s', r)"
    by (cases "process_transaction c e (clk tx) s tx")
  show ?case
  proof (cases r)
    case None
    with pt Cons.IH [of s'] process_transaction_ok(1) [of c e "clk tx" s tx s']
    show ?thesis by simp
  next
    case (Some err)
    with pt process_transaction_raises(1) [of c e "clk tx" s tx s' err]
    show ?thesis by simp
  qed
qed

lemma process_batch_count:
  "transactions_processed (fst (process_batch c e clk s txs)) =
     transactions_processed s + length (processed_in_batch c e clk s txs)"
proof (induction txs arbitrary: s)
  case Nil
  show ?case by simp
next
  case (Cons tx txs)
  obtain s' r where pt: "process_transaction c e (clk tx) s tx = (s', r)"
    by (cases "process_transaction c e (clk tx) s tx")
  show ?case
  proof (cases r)
    case None
    with pt Cons.IH [of s'] process_transaction_ok(2) [of c e "clk tx" s tx s']
    show ?thesis by simp
  next
    case (Some err)
    with pt process_transaction_raises(2) [of c e "clk tx" s tx s' err]
    show ?thesis by simp
  qed
qed

lemma processed_in_batch_take:
  "\<exists>n. processed_in_batch c e clk s txs = take n (map transaction_id txs)"
proof (induction txs arbitrary: s)
  case Nil
  show ?case by simp
next
  case (Cons tx txs)
  obtain s' r where pt: "process_transaction c e (clk tx) s tx = (s', r)"
    by (cases "process_transaction c e (clk tx) s tx")
  show ?case
  proof (cases r)
    case None
    from Cons.IH [of s'] obtain n
      where "processed_in_batch c e clk s' txs = take n (map transaction_id txs)" by blast
    with pt None
    have "processed_in_batch c e clk s (tx # txs) = take (Suc n) (map transaction_id (tx # txs))"
      by simp
    then show ?thesis by blast
  next
    case (Some err)
    with pt
    have "processed_in_batch c e clk s (tx # txs) = take 0 (map transaction_id (tx # txs))"
      by simp
    then show ?thesis by blast
  qed
qed

lemma last_sorted_Max: "sorted (x # xs) \<Longrightarrow> last (x # xs) = Max (set (x # xs))"
  for x :: int
proof (induction xs arbitrary: x)
  case Nil
  show ?case by simp
next
  case (Cons y ys)
  from Cons.prems have "sorted (y # ys)" and xy: "x \<le> y" by simp_all
  from Cons.IH [OF this(1)] have l: "last (y # ys) = Max (set (y # ys))" .
  have "y \<le> Max (set (y # ys))" by simp
  with xy have "x \<le> Max (set (y # ys))" by linarith
  then have "Max (set (x # y # ys)) = Max (set (y # ys))"
    by (simp add: max_def)
  with l show ?case by simp
qed

lemma process_batch_cursor_Max:
  assumes "sorted (map transaction_id txs)"
    and "\<forall>tx \<in> set txs. last_transaction_id s \<le> transaction_id tx"
  shows "last_transaction_id (fst (process_batch c e clk s txs)) =
           Max (insert (last_transaction_id s) (set (processed_in_batch c e clk s txs)))"
proof -
  obtain n where n: "processed_in_batch c e clk s txs = take n (map transaction_id txs)"
    using processed_in_batch_take by blast
  have "sorted (take n (map transaction_id txs))"
    using assms(1) by (rule sorted_wrt_take)
  moreover have "\<forall>i \<in> set (take n (map transaction_id txs)). last_transaction_id s \<le> i"
    using assms(2) by (auto dest!: in_set_takeD)
  ultimately have "sorted (last_transaction_id s # take n (map transaction_id txs))"
    by simp
  from last_sorted_Max [OF this] show ?thesis
    by (simp add: process_batch_cursor n)
qed

lemma processed_in_batch_take_subset:
  "set (processed_in_batch c e clk s (take n txs))
     \<subseteq> set (processed_in_batch c e clk s (take (Suc n) txs))"
proof (cases "n < length txs")
  case True
  then have t: "take (Suc n) txs = take n txs @ [txs ! n]"
    by (rule take_Suc_conv_app_nth)
  obtain s' r where pb: "process_batch c e clk s (take n txs) = (s', r)"
    by (cases "process_batch c e clk s (take n txs)")
  from t show ?thesis
    by (cases r) (simp_all add: processed_in_batch_append pb)
next
  case False
  then show ?thesis by simp
qed

lemma process_batch_step_mono:
  assumes "sorted (map transaction_id txs)"
    and "\<forall>tx \<in> set txs. last_transaction_id s \<le> transaction_id tx"
  shows "last_transaction_id (fst (process_batch c e clk s (take n txs)))
           \<le> last_transaction_id (fst (process_batch c e clk s (take (Suc n) txs)))"
proof -
  have s: "\<And>k. sorted (map transaction_id (take k txs))"
    using assms(1) by (simp add: take_map [symmetric])
  have a: "\<And>k. \<forall>tx \<in> set (take k txs). last_transaction_id s \<le> transaction_id tx"
    using assms(2) by (auto dest: in_set_takeD)
  show ?thesis
    unfolding process_batch_cursor_Max [OF s a]
  proof (rule Max_mono)
    show "insert (last_transaction_id s) (set (processed_in_batch c e clk s (take n txs)))
        \<subseteq> insert (last_transaction_id s)
            (set (processed_in_batch c e clk s (take (Suc n) txs)))"
      using processed_in_batch_take_subset [of c e clk s n txs] by blast
  qed simp_all
qed

subsection \<open>Cycles and the cursor\<close>

lemma select_sorted: "sorted (map transaction_id (select_new_transactions table cursor))"
  by (simp add: select_new_transactions_def)

lemma select_above:
  "tx \<in> set (select_new_transactions table cursor) \<Longrightarrow> cursor < transaction_id tx"
  by (simp add: select_new_transactions_def)

lemma select_step_mono:
  "last_transaction_id (fst (process_batch c e clk s
      (take n (select_new_transactions table (last_transaction_id s)))))
   \<le> last_transaction_id (fst (process_batch c e clk s
      (take (Suc n) (select_new_transactions table (last_transaction_id s)))))"
  by (rule process_batch_step_mono) (auto simp add: select_sorted dest: select_above)

lemma process_new_transactions_cursor:
  "last_transaction_id (process_new_transactions c e inp s) =
     Max (insert (last_transaction_id s) (set (processed_in_cycle c e inp s)))"
proof (cases "transactions_query inp")
  case (Inl err)
  then show ?thesis by (simp add: process_new_transactions_def processed_in_cycle_def)
next
  case (Inr table)
  let ?b = "select_new_transactions table (last_transaction_id s)"
  have "\<forall>tx \<in> set ?b. last_transaction_id s \<le> transaction_id tx"
    by (auto dest: select_above)
  from process_batch_cursor_Max [OF select_sorted this] show ?thesis
    by (simp add: process_new_transactions_def processed_in_cycle_def Inr)
qed

lemma process_new_transactions_count:
  "transactions_processed (process_new_transactions c e inp s) =
     transactions_processed s + length (processed_in_cycle c e inp s)"
  by (simp add: process_new_transactions_def processed_in_cycle_def process_batch_count
      split: sum.split)

lemma check_client_exposure_cursor:
  assumes "check_client_exposure c e s cid x = Inr (alert, s')"
  shows "last_transaction_id s' = last_transaction_id s"
    and "transactions_processed s' = transactions_processed s"
  using assms
  by (auto simp add: check_client_exposure_def update_client_risk_level_def
      split: sum.splits if_splits)

lemma check_symbol_exposure_cursor:
  assumes "check_symbol_exposure c e s sy x = Inr (alert, s')"
  shows "last_transaction_id s' = last_transaction_id s"
    and "transactions_processed s' = transactions_processed s"
  using assms
  by (auto simp add: check_symbol_exposure_def update_symbol_risk_level_def
      split: sum.splits if_splits)

lemma check_client_rows_cursor:
  "last_transaction_id (fst (check_client_rows c e s rows)) = last_transaction_id s
   \<and> transactions_processed (fst (check_client_rows c e s rows)) = transactions_processed s"
proof (induction rows arbitrary: s)
  case Nil
  show ?case by simp
next
  case (Cons row rows)
  obtain cid v where row: "row = (cid, v)" by (cases row)
  show ?case
    using Cons.IH
    by (auto simp add: row emit_fields split: sum.split prod.split
        dest: check_client_exposure_cursor)
qed

lemma check_symbol_rows_cursor:
  "last_transaction_id (fst (check_symbol_rows c e s rows)) = last_transaction_id s
   \<and> transactions_processed (fst (check_symbol_rows c e s rows)) = transactions_processed s"
proof (induction rows arbitrary: s)
  case Nil
  show ?case by simp
next
  case (Cons row rows)
  obtain sy v where row: "row = (sy, v)" by (cases row)
  show ?case
    using Cons.IH
    by (auto simp add: row emit_fields split: sum.split prod.split
        dest: check_symbol_exposure_cursor)
qed

lemma check_exposures_cursor:
  "last_transaction_id (check_exposures c e inp s) = last_transaction_id s"
  "transactions_processed (check_exposures c e inp s) = transactions_processed s"
proof -
  have "last_transaction_id (check_exposures c e inp s) = last_transaction_id s
     \<and> transactions_processed (check_exposures c e inp s) = transactions_processed s"
  proof (cases "client_exposures_query inp")
    case (Inl err)
    then show ?thesis by (simp add: check_exposures_def)
  next
    case (Inr rows)
    obtain s' r where cr: "check_client_rows c e s rows = (s', r)"
      by (cases "check_client_rows c e s rows")
    have s': "last_transaction_id s' = last_transaction_id s
        \<and> transactions_processed s' = transactions_processed s"
      using check_client_rows_cursor [of c e s rows] cr by simp
    show ?thesis
      using s' check_symbol_rows_cursor [of c e s']
      by (simp add: check_exposures_def Inr cr split: option.split sum.split)
  qed
  then show "last_transaction_id (check_exposures c e inp s) = last_transaction_id s"
    and "transactions_processed (check_exposures c e inp s) = transactions_processed s"
    by simp_all
qed

lemma update_risk_metrics_cursor:
  "last_transaction_id (update_risk_metrics inp s) = last_transaction_id s"
  "transactions_processed (update_risk_metrics inp s) = transactions_processed s"
  by (simp_all add: update_risk_metrics_def)

lemma monitor_cycle_cursor:
  "last_transaction_id (monitor_cycle c e iteration inp s) =
     last_transaction_id (process_new_transactions c e inp s)"
  "transactions_processed (monitor_cycle c e iteration inp s) =
     transactions_processed (process_new_transactions c e inp s)"
  by (simp_all add: monitor_cycle_def Let_def update_risk_metrics_cursor check_exposures_cursor)

lemma Max_insert_Max:
  "finite A \<Longrightarrow> finite B \<Longrightarrow> Max (insert (Max (insert x A)) B) = Max (insert x (A \<union> B))"
  for x :: int
proof (cases "B = {}")
  case True
  then show ?thesis by simp
next
  case False
  assume "finite A" "finite B"
  with False have "Max (insert x A \<union> B) = max (Max (insert x A)) (Max B)"
    by (intro Max_Un) simp_all
  moreover have "Max (insert (Max (insert x A)) B) = max (Max (insert x A)) (Max B)"
    using False \<open>finite B\<close> by simp
  ultimately show ?thesis by simp
qed

lemma monitor_iterations_cursor:
  "last_transaction_id (monitor_iterations c e iteration s inps) =
     Max (insert (last_transaction_id s) (set (processed_ids c e iteration s inps)))"
proof (induction inps arbitrary: s iteration)
  case Nil
  show ?case by simp
next
  case (Cons inp inps)
  show ?case
    by (simp add: Cons.IH monitor_cycle_cursor process_new_transactions_cursor Max_insert_Max
        del: Max_insert)
qed

lemma monitor_iterations_count:
  "transactions_processed (monitor_iterations c e iteration s inps) =
     transactions_processed s + length (processed_ids c e iteration s inps)"
  by (induction inps arbitrary: s iteration)
    (simp_all add: monitor_cycle_cursor process_new_transactions_count)

lemma monitor_iterations_append:
  "monitor_iterations c e iteration s (xs @ ys) =
     monitor_iterations c e (iteration + length xs) (monitor_iterations c e iteration s xs) ys"
  by (induction xs arbitrary: s iteration) simp_all

lemma monitor_iterations_mono:
  "last_transaction_id s \<le> last_transaction_id (monitor_iterations c e iteration s inps)"
  by (simp add: monitor_iterations_cursor)

text \<open>
  C9. After any number of cycles the cursor is the greatest of its initial value and the
  ids of the transactions processed to the end (as many as the engine's own counter
  says); it does not decrease from one transaction of a batch to the next, over a batch,
  or from one cycle to the next; and the exposure checks of a cycle leave it as it is,
  whether they fail or not.
\<close>

theorem cursor_is_max_processed:
  "last_transaction_id (monitor_loop c e s inps) =
     Max (insert (last_transaction_id s)
            (set (processed_ids c e 0 (s\<lparr>running := True\<rparr>) inps)))
   \<and> transactions_processed (monitor_loop c e s inps) =
       transactions_processed s + length (processed_ids c e 0 (s\<lparr>running := True\<rparr>) inps)
   \<and> last_transaction_id (monitor_iterations c e iteration s inps)
       \<le> last_transaction_id (monitor_iterations c e iteration s (inps @ inps'))
   \<and> last_transaction_id s \<le> last_transaction_id (process_new_transactions c e inp s)
   \<and> last_transaction_id (fst (process_batch c e clk s
        (take n (select_new_transactions table (last_transaction_id s)))))
       \<le> last_transaction_id (fst (process_batch c e clk s
            (take (Suc n) (select_new_transactions table (last_transaction_id s)))))
   \<and> last_transaction_id (check_exposures c e inp s) = last_transaction_id s"
proof -
  have a: "last_transaction_id (monitor_loop c e s inps) =
     Max (insert (last_transaction_id s)
            (set (processed_ids c e 0 (s\<lparr>running := True\<rparr>) inps)))"
    by (simp add: monitor_loop_def monitor_iterations_cursor)
  have b: "transactions_processed (monitor_loop c e s inps) =
       transactions_processed s + length (processed_ids c e 0 (s\<lparr>running := True\<rparr>) inps)"
    by (simp add: monitor_loop_def monitor_iterations_count)
  have c: "last_transaction_id (monitor_iterations c e iteration s inps)
       \<le> last_transaction_id (monitor_iterations c e iteration s (inps @ inps'))"
    by (simp only: monitor_iterations_append monitor_iterations_mono)
  have d: "last_transaction_id s \<le> last_transaction_id (process_new_transactions c e inp s)"
    by (simp add: process_new_transactions_cursor)
  from a b c d select_step_mono [of c e clk s n table] show ?thesis
    by (simp add: check_exposures_cursor)
qed

subsection \<open>Startup\<close>



end
